theory Spec2Isabelle
  imports Main "HOL-Library.Sublist" "HOL-Library.Multiset"
begin

section \<open>JavaScript strings and values\<close>

text \<open>
  A JavaScript string is modelled as a \<^typ>\<open>string\<close>: the list of the bytes of its UTF-8
  encoding. A value that may be \<open>undefined\<close> or \<open>null\<close> (a missing \<open>data-*\<close> attribute,
  the \<open>?.value\<close> of an element that is not in the page, \<open>URLSearchParams.get\<close> of an
  absent name) is a \<^typ>\<open>string option\<close>, \<open>None\<close> standing for \<open>undefined\<close>/\<open>null\<close>.
\<close>

definition truthy :: "string option \<Rightarrow> bool" where
  \<comment> \<open>ToBoolean on a string or \<open>undefined\<close>: only a non-empty string is truthy.\<close>
  "truthy v = (case v of None \<Rightarrow> False | Some s \<Rightarrow> s \<noteq> [])"

fun str_includes :: "string \<Rightarrow> string \<Rightarrow> bool" where
  \<comment> \<open>\<open>String.prototype.includes\<close>: \<open>str_includes s sub\<close> is \<open>s.includes(sub)\<close>.\<close>
  "str_includes [] sub = (sub = [])"
| "str_includes (c # cs) sub = (prefix sub (c # cs) \<or> str_includes cs sub)"

fun split_comma :: "string \<Rightarrow> string list" where
  \<comment> \<open>\<open>s.split(",")\<close>; the result is never the empty array.\<close>
  "split_comma [] = [[]]"
| "split_comma (c # cs) =
     (if c = CHR '','' then [] # split_comma cs
      else (c # hd (split_comma cs)) # tl (split_comma cs))"

definition toLowerChar :: "char \<Rightarrow> char" where
  "toLowerChar c =
     (let n = (of_char c :: nat) in if 65 \<le> n \<and> n \<le> 90 then char_of (n + 32) else c)"

definition toLowerCase :: "string \<Rightarrow> string" where
  \<comment> \<open>\<open>String.prototype.toLowerCase\<close> on the ASCII letters; the case mapping of the
      characters outside ASCII is not modelled (their bytes are kept).\<close>
  "toLowerCase s = map toLowerChar s"

subsection \<open>\<open>parseInt\<close>\<close>

definition whiteSpace :: "string list" where
  \<comment> \<open>The UTF-8 encodings of the code points that \<open>parseInt\<close> skips at the start of its
      argument (WhiteSpace and LineTerminator of ECMAScript): TAB, LF, VT, FF, CR, SP,
      U+00A0, U+1680, U+2000..U+200A, U+2028, U+2029, U+202F, U+205F, U+3000, U+FEFF.\<close>
  "whiteSpace =
     [[CHR 0x09], [CHR 0x0A], [CHR 0x0B], [CHR 0x0C], [CHR 0x0D], [CHR 0x20],
      [CHR 0xC2, CHR 0xA0], [CHR 0xE1, CHR 0x9A, CHR 0x80],
      [CHR 0xE2, CHR 0x80, CHR 0x80], [CHR 0xE2, CHR 0x80, CHR 0x81],
      [CHR 0xE2, CHR 0x80, CHR 0x82], [CHR 0xE2, CHR 0x80, CHR 0x83],
      [CHR 0xE2, CHR 0x80, CHR 0x84], [CHR 0xE2, CHR 0x80, CHR 0x85],
      [CHR 0xE2, CHR 0x80, CHR 0x86], [CHR 0xE2, CHR 0x80, CHR 0x87],
      [CHR 0xE2, CHR 0x80, CHR 0x88], [CHR 0xE2, CHR 0x80, CHR 0x89],
      [CHR 0xE2, CHR 0x80, CHR 0x8A], [CHR 0xE2, CHR 0x80, CHR 0xA8],
      [CHR 0xE2, CHR 0x80, CHR 0xA9], [CHR 0xE2, CHR 0x80, CHR 0xAF],
      [CHR 0xE2, CHR 0x81, CHR 0x9F], [CHR 0xE3, CHR 0x80, CHR 0x80],
      [CHR 0xEF, CHR 0xBB, CHR 0xBF]]"

definition wsLen :: "string \<Rightarrow> nat" where
  \<comment> \<open>The number of bytes of the white-space code point the string starts with, 0 if it
      starts with none.\<close>
  "wsLen s = (case List.find (\<lambda>w. prefix w s) whiteSpace of None \<Rightarrow> 0 | Some w \<Rightarrow> length w)"

function trimStart :: "string \<Rightarrow> string" where
  "trimStart s = (if wsLen s = 0 then s else trimStart (drop (wsLen s) s))"
  by pat_completeness auto
termination
proof (relation "measure length")
  show "wf (measure length)" by simp
next
  fix s :: string
  assume "wsLen s \<noteq> 0"
  then have "s \<noteq> []" by (cases s) (simp_all add: wsLen_def whiteSpace_def)
  with \<open>wsLen s \<noteq> 0\<close> show "(drop (wsLen s) s, s) \<in> measure length" by simp
qed

declare trimStart.simps [simp del]

definition digitVal :: "char \<Rightarrow> nat" where
  \<comment> \<open>The value of a digit \<open>0-9\<close>, \<open>a-z\<close>, \<open>A-Z\<close>; 36 (no digit in any radix) otherwise.\<close>
  "digitVal c =
     (let n = (of_char c :: nat) in
      if 48 \<le> n \<and> n \<le> 57 then n - 48
      else if 97 \<le> n \<and> n \<le> 122 then n - 87
      else if 65 \<le> n \<and> n \<le> 90 then n - 55
      else 36)"

definition hasHexPrefix :: "string \<Rightarrow> bool" where
  "hasHexPrefix s = (prefix ''0x'' s \<or> prefix ''0X'' s)"

definition parseInt :: "string \<Rightarrow> int option" where
  \<comment> \<open>\<open>parseInt(str)\<close> with no radix argument; \<open>None\<close> is \<open>NaN\<close>. The JavaScript result is
      a double; rounding an integer to the nearest double is monotone and keeps 5, so the
      only use the program makes of the result, \<open>num >= 5\<close>, is the same on the exact
      integer.\<close>
  "parseInt str =
     (let s = trimStart str;
          neg = (s \<noteq> [] \<and> hd s = CHR ''-'');
          s1 = (if s \<noteq> [] \<and> (hd s = CHR ''-'' \<or> hd s = CHR ''+'') then tl s else s);
          R = (if hasHexPrefix s1 then 16 else 10);
          s2 = (if hasHexPrefix s1 then drop 2 s1 else s1);
          z = takeWhile (\<lambda>c. digitVal c < R) s2
      in if z = [] then None
         else Some ((if neg then - 1 else 1) * int (foldl (\<lambda>a c. a * R + digitVal c) 0 z)))"

section \<open>The property cards and the filter form\<close>

text \<open>
  A property card is a DOM element; the record holds what \<open>filterProperties\<close> reads from
  it (its \<open>data-*\<close> attributes and the text of its \<open>.text-muted\<close> child) and what it
  writes (\<open>style.display\<close>). \<open>card_id\<close> is the identity of the element.
\<close>

record card =
  card_id :: nat
  data_propertyType :: "string option"
  data_priceRange :: "string option"
  data_bhk :: "string option"
  text_muted :: "string option"
  data_status :: "string option"
  data_amenities :: "string option"
  display :: string

subsection \<open>The per-facet helpers\<close>

definition checkBudgetMatch :: "string \<Rightarrow> string \<Rightarrow> bool" where
  "checkBudgetMatch budget priceRange =
     (if budget = ''50-100'' then priceRange = ''50l'' \<or> priceRange = ''1cr''
      else if budget = ''100-250'' then priceRange = ''1cr'' \<or> priceRange = ''2.5cr''
      else if budget = ''250-500'' then priceRange = ''2.5cr'' \<or> priceRange = ''5cr''
      else if budget = ''500-1000'' then priceRange = ''5cr'' \<or> priceRange = ''10cr''
      else if budget = ''1000+'' then priceRange = ''10cr'' \<or> priceRange = ''on-request''
      else True)"

definition checkBhkMatch :: "string \<Rightarrow> string \<Rightarrow> bool" where
  "checkBhkMatch bhk cardBhk =
     (if cardBhk = [] then True
      else let bhkOptions = split_comma cardBhk in
        if bhk = ''5+'' then
          list_ex (\<lambda>option. case parseInt option of None \<Rightarrow> False | Some num \<Rightarrow> num \<ge> 5)
            bhkOptions
        else bhk \<in> set bhkOptions)"

datatype jsval = Undefined | Str string | ProtoMember string

text \<open>
  The three lookup tables of the program are object literals, so \<open>table[key]\<close> also finds
  what every object inherits from \<open>Object.prototype\<close>. \<open>ProtoMember k\<close> is the inherited
  member named \<open>k\<close>: a built-in function, or for \<open>__proto__\<close> the prototype object itself;
  it is truthy and it is not a string.
\<close>

definition objectPrototypeKeys :: "string list" where
  "objectPrototypeKeys =
     [''constructor'', ''__defineGetter__'', ''__defineSetter__'', ''hasOwnProperty'',
      ''__lookupGetter__'', ''__lookupSetter__'', ''isPrototypeOf'',
      ''propertyIsEnumerable'', ''toString'', ''valueOf'', ''__proto__'',
      ''toLocaleString'']"

definition getProperty :: "(string \<times> string) list \<Rightarrow> string \<Rightarrow> jsval" where
  \<comment> \<open>\<open>table[key]\<close> for an object literal with the given own properties.\<close>
  "getProperty table key =
     (case map_of table key of
        Some v \<Rightarrow> Str v
      | None \<Rightarrow> if key \<in> set objectPrototypeKeys then ProtoMember key else Undefined)"

definition truthyVal :: "jsval \<Rightarrow> bool" where
  "truthyVal v = (case v of Undefined \<Rightarrow> False | Str s \<Rightarrow> s \<noteq> [] | ProtoMember k \<Rightarrow> True)"

definition orElse :: "jsval \<Rightarrow> jsval \<Rightarrow> jsval" where
  \<comment> \<open>\<open>a || b\<close>\<close>
  "orElse a b = (if truthyVal a then a else b)"

definition toString :: "jsval \<Rightarrow> string" where
  \<comment> \<open>The string a template literal inserts for a value. The text of a built-in function is
      the one V8 and JavaScriptCore print (other engines differ in its white space only).\<close>
  "toString v =
     (case v of
        Undefined \<Rightarrow> ''undefined''
      | Str s \<Rightarrow> s
      | ProtoMember k \<Rightarrow>
          if k = ''__proto__'' then ''[object Object]''
          else if k = ''constructor'' then ''function Object() { [native code] }''
          else ''function '' @ k @ ''() { [native code] }'')"

definition amenityMap :: "(string \<times> string) list" where
  "amenityMap =
     [(''pool'', ''pool''), (''gym'', ''gym''), (''club'', ''club''),
      (''security'', ''security''), (''solar'', ''solar'')]"

definition checkAmenitiesMatch :: "string \<Rightarrow> string \<Rightarrow> bool" where
  "checkAmenitiesMatch amenity cardAmenities =
     (if cardAmenities = [] then True
      else let amenityOptions = split_comma cardAmenities;
               mappedAmenity = orElse (getProperty amenityMap amenity) (Str amenity)
           in case mappedAmenity of
                Str m \<Rightarrow> m \<in> set amenityOptions
              | _ \<Rightarrow> False)"

section \<open>The filter form\<close>

text \<open>
  The six filter controls are elements of the page, found by their ids. A control is a
  text input or a single-choice \<open>select\<close>, as \<open>clearAllFilters\<close> distinguishes them; the
  option values of a \<open>select\<close> are markup that the scripts do not contain, so they are
  part of the control. A document maps an id to the element that carries it.
\<close>

datatype kind = TextInput | SelectOne "string list"

record control =
  ctl_kind :: kind
  ctl_value :: string

type_synonym document = "string \<Rightarrow> control option"

definition getValue :: "document \<Rightarrow> string \<Rightarrow> string option" where
  \<comment> \<open>\<open>document.getElementById(id)?.value\<close>\<close>
  "getValue doc ident = map_option ctl_value (doc ident)"

definition assignValue :: "control \<Rightarrow> string \<Rightarrow> control" where
  \<comment> \<open>\<open>element.value = v\<close>: an input stores the string; a \<open>select\<close> selects the option with
      that value and, when it has none, is left with no selection and reads \<open>""\<close>.\<close>
  "assignValue c v =
     (case ctl_kind c of
        TextInput \<Rightarrow> c\<lparr>ctl_value := v\<rparr>
      | SelectOne opts \<Rightarrow> c\<lparr>ctl_value := (if v \<in> set opts then v else [])\<rparr>)"

record selection =
  propertyType :: "string option"
  budget :: "string option"
  bhk :: "string option"
  location :: "string option"
  possession :: "string option"
  amenities :: "string option"

definition readControls :: "document \<Rightarrow> selection" where
  \<comment> \<open>The six reads that open \<open>filterProperties\<close>, \<open>hasFiltersApplied\<close>, \<open>getActiveFilters\<close>
      and \<open>redirectToFilteredProperties\<close>.\<close>
  "readControls doc =
     \<lparr>propertyType = getValue doc ''propertyType'',
      budget = getValue doc ''budget'',
      bhk = getValue doc ''bhk'',
      location = getValue doc ''location'',
      possession = getValue doc ''possession'',
      amenities = getValue doc ''amenities''\<rparr>"

definition str :: "string option \<Rightarrow> string" where
  \<comment> \<open>The string of a value that a truthiness test has already found to be one.\<close>
  "str v = (case v of None \<Rightarrow> [] | Some s \<Rightarrow> s)"

section \<open>\<open>filterProperties\<close>\<close>

text \<open>
  The body of the \<open>forEach\<close> is six blocks, each reading and possibly clearing the flag
  \<open>showProperty\<close>. Each block is a function from the flag before it to the flag after it.
\<close>

definition typeStep :: "selection \<Rightarrow> card \<Rightarrow> bool \<Rightarrow> bool" where
  "typeStep sel c showProperty =
     (if truthy (propertyType sel) \<and> showProperty then
        (if truthy (data_propertyType c)
            \<and> \<not> str_includes (str (data_propertyType c)) (str (propertyType sel))
         then False else showProperty)
      else showProperty)"

definition budgetStep :: "selection \<Rightarrow> card \<Rightarrow> bool \<Rightarrow> bool" where
  "budgetStep sel c showProperty =
     (if truthy (budget sel) \<and> showProperty then
        (if truthy (data_priceRange c) then
           (if \<not> checkBudgetMatch (str (budget sel)) (str (data_priceRange c))
            then False else showProperty)
         else showProperty)
      else showProperty)"

definition bhkStep :: "selection \<Rightarrow> card \<Rightarrow> bool \<Rightarrow> bool" where
  "bhkStep sel c showProperty =
     (if truthy (bhk sel) \<and> showProperty then
        (if truthy (data_bhk c) then
           (if \<not> checkBhkMatch (str (bhk sel)) (str (data_bhk c))
            then False else showProperty)
         else showProperty)
      else showProperty)"

definition locationStep :: "selection \<Rightarrow> card \<Rightarrow> bool \<Rightarrow> bool" where
  "locationStep sel c showProperty =
     (if truthy (location sel) \<and> showProperty then
        (let cardLocation = map_option toLowerCase (text_muted c) in
         if truthy cardLocation \<and> \<not> str_includes (str cardLocation) (str (location sel))
         then False else showProperty)
      else showProperty)"

definition possessionStep :: "selection \<Rightarrow> card \<Rightarrow> bool \<Rightarrow> bool" where
  "possessionStep sel c showProperty =
     (if truthy (possession sel) \<and> showProperty then
        (if truthy (data_status c) \<and> str (data_status c) \<noteq> str (possession sel)
         then False else showProperty)
      else showProperty)"

definition amenitiesStep :: "selection \<Rightarrow> card \<Rightarrow> bool \<Rightarrow> bool" where
  "amenitiesStep sel c showProperty =
     (if truthy (amenities sel) \<and> showProperty then
        (if truthy (data_amenities c) then
           (if \<not> checkAmenitiesMatch (str (amenities sel)) (str (data_amenities c))
            then False else showProperty)
         else showProperty)
      else showProperty)"

definition facetSteps :: "selection \<Rightarrow> card \<Rightarrow> (bool \<Rightarrow> bool) list" where
  \<comment> \<open>The six blocks in the order of the source.\<close>
  "facetSteps sel c =
     [typeStep sel c, budgetStep sel c, bhkStep sel c, locationStep sel c,
      possessionStep sel c, amenitiesStep sel c]"

definition runSteps :: "(bool \<Rightarrow> bool) list \<Rightarrow> bool" where
  \<comment> \<open>\<open>let showProperty = true\<close>, then the blocks one after the other.\<close>
  "runSteps steps = fold (\<lambda>step showProperty. step showProperty) steps True"

definition showProperty :: "selection \<Rightarrow> card \<Rightarrow> bool" where
  "showProperty sel c = runSteps (facetSteps sel c)"

fun forEachCard :: "selection \<Rightarrow> card list \<Rightarrow> nat \<Rightarrow> card list \<times> nat" where
  \<comment> \<open>The \<open>forEach\<close> over the cards: sets \<open>style.display\<close> and counts the visible ones.\<close>
  "forEachCard sel [] visibleCount = ([], visibleCount)"
| "forEachCard sel (c # cs) visibleCount =
     (let sp = showProperty sel c;
          c' = c\<lparr>display := (if sp then ''block'' else ''none'')\<rparr>;
          r = forEachCard sel cs (if sp then visibleCount + 1 else visibleCount)
      in (c' # fst r, snd r))"

definition filterSelection :: "document \<Rightarrow> selection" where
  \<comment> \<open>The six reads of \<open>filterProperties\<close>: here, and only here, \<open>location\<close> is
      lower-cased as it is read.\<close>
  "filterSelection doc =
     (let sel = readControls doc in sel\<lparr>location := map_option toLowerCase (location sel)\<rparr>)"

definition filterProperties :: "document \<Rightarrow> card list \<Rightarrow> card list \<times> nat" where
  \<comment> \<open>Returns the cards with their new \<open>display\<close> and the \<open>visibleCount\<close> that is handed
      to \<open>updateFilterResultsInfo\<close>.\<close>
  "filterProperties doc cards = forEachCard (filterSelection doc) cards 0"

definition visible :: "card list \<Rightarrow> card list" where
  \<comment> \<open>The cards left on display, in document order.\<close>
  "visible cards = filter (\<lambda>c. display c = ''block'') cards"

definition hasFiltersApplied :: "document \<Rightarrow> bool" where
  "hasFiltersApplied doc =
     (let sel = readControls doc in
      truthy (propertyType sel) \<or> truthy (budget sel) \<or> truthy (bhk sel)
      \<or> truthy (location sel) \<or> truthy (possession sel) \<or> truthy (amenities sel))"

subsection \<open>The facet predicates\<close>

text \<open>
  What each block decides, written as a predicate of the selection and the card: the
  block leaves the flag alone exactly when its predicate holds.
\<close>

definition matchesPropertyType :: "selection \<Rightarrow> card \<Rightarrow> bool" where
  "matchesPropertyType sel c =
     (\<not> truthy (propertyType sel) \<or> \<not> truthy (data_propertyType c)
      \<or> str_includes (str (data_propertyType c)) (str (propertyType sel)))"

definition matchesBudget :: "selection \<Rightarrow> card \<Rightarrow> bool" where
  "matchesBudget sel c =
     (\<not> truthy (budget sel) \<or> \<not> truthy (data_priceRange c)
      \<or> checkBudgetMatch (str (budget sel)) (str (data_priceRange c)))"

definition matchesBedrooms :: "selection \<Rightarrow> card \<Rightarrow> bool" where
  "matchesBedrooms sel c =
     (\<not> truthy (bhk sel) \<or> \<not> truthy (data_bhk c)
      \<or> checkBhkMatch (str (bhk sel)) (str (data_bhk c)))"

definition matchesLocation :: "selection \<Rightarrow> card \<Rightarrow> bool" where
  "matchesLocation sel c =
     (\<not> truthy (location sel) \<or> \<not> truthy (map_option toLowerCase (text_muted c))
      \<or> str_includes (str (map_option toLowerCase (text_muted c))) (str (location sel)))"

definition matchesPossession :: "selection \<Rightarrow> card \<Rightarrow> bool" where
  "matchesPossession sel c =
     (\<not> truthy (possession sel) \<or> \<not> truthy (data_status c)
      \<or> str (data_status c) = str (possession sel))"

definition matchesAmenity :: "selection \<Rightarrow> card \<Rightarrow> bool" where
  "matchesAmenity sel c =
     (\<not> truthy (amenities sel) \<or> \<not> truthy (data_amenities c)
      \<or> checkAmenitiesMatch (str (amenities sel)) (str (data_amenities c)))"

section \<open>The summary of the active filters\<close>

definition rupee :: string where
  \<comment> \<open>U+20B9, the rupee sign, in UTF-8.\<close>
  "rupee = [CHR 0xE2, CHR 0x82, CHR 0xB9]"

definition budgetLabels :: "(string \<times> string) list" where
  "budgetLabels =
     [(''50-100'', rupee @ ''50L - '' @ rupee @ ''1Cr''),
      (''100-250'', rupee @ ''1Cr - '' @ rupee @ ''2.5Cr''),
      (''250-500'', rupee @ ''2.5Cr - '' @ rupee @ ''5Cr''),
      (''500-1000'', rupee @ ''5Cr - '' @ rupee @ ''10Cr''),
      (''1000+'', rupee @ ''10Cr+'')]"

definition getBudgetLabel :: "string \<Rightarrow> jsval" where
  "getBudgetLabel budgetValue = orElse (getProperty budgetLabels budgetValue) (Str budgetValue)"

definition amenityLabels :: "(string \<times> string) list" where
  "amenityLabels =
     [(''pool'', ''Swimming Pool''), (''gym'', ''Gymnasium''), (''club'', ''Clubhouse''),
      (''security'', ''24/7 Security''), (''solar'', ''Solar Power'')]"

definition getAmenityLabel :: "string \<Rightarrow> jsval" where
  "getAmenityLabel amenityValue =
     orElse (getProperty amenityLabels amenityValue) (Str amenityValue)"

definition getActiveFilters :: "document \<Rightarrow> string list" where
  \<comment> \<open>Each \<open>if (x) filters.push(...)\<close> appends one string or nothing.\<close>
  "getActiveFilters doc =
     (let sel = readControls doc in
      (if truthy (propertyType sel) then [''Type: '' @ str (propertyType sel)] else [])
      @ (if truthy (budget sel)
         then [''Budget: '' @ toString (getBudgetLabel (str (budget sel)))] else [])
      @ (if truthy (bhk sel) then [''BHK: '' @ str (bhk sel)] else [])
      @ (if truthy (location sel) then [''Location: '' @ str (location sel)] else [])
      @ (if truthy (possession sel) then [''Status: '' @ str (possession sel)] else [])
      @ (if truthy (amenities sel)
         then [''Amenities: '' @ toString (getAmenityLabel (str (amenities sel)))] else []))"

section \<open>The query string\<close>

text \<open>
  A \<open>URLSearchParams\<close> object is its list of name-value pairs: \<open>append\<close> adds a pair at the
  end, \<open>get\<close> returns the value of the first pair with the name, or \<open>null\<close>. The redirect
  serialises the list into the URL and the target page parses it back; percent-encoding
  makes that transport the identity on the list, and it is not modelled further.
\<close>

type_synonym params = "(string \<times> string) list"

definition append :: "params \<Rightarrow> string \<Rightarrow> string \<Rightarrow> params" where
  "append ps name v = ps @ [(name, v)]"

definition get :: "params \<Rightarrow> string \<Rightarrow> string option" where
  "get ps name = map_of ps name"

definition appendIf :: "string option \<Rightarrow> string \<Rightarrow> params \<Rightarrow> params" where
  \<comment> \<open>\<open>if (x) params.append(name, x)\<close>\<close>
  "appendIf x name ps = (if truthy x then append ps name (str x) else ps)"

definition redirectToFilteredProperties :: "document \<Rightarrow> params" where
  \<comment> \<open>The parameters of the URL the browser is sent to.\<close>
  "redirectToFilteredProperties doc =
     (let sel = readControls doc in
      appendIf (amenities sel) ''amenities''
        (appendIf (possession sel) ''status''
          (appendIf (location sel) ''location''
            (appendIf (bhk sel) ''bhk''
              (appendIf (budget sel) ''budget''
                (appendIf (propertyType sel) ''type'' []))))))"

datatype error = TypeError

definition setIf :: "string option \<Rightarrow> string \<Rightarrow> document \<Rightarrow> error + document" where
  \<comment> \<open>\<open>if (x) document.getElementById(id).value = x\<close>: there is no \<open>?.\<close> here, so a page
      without the element throws.\<close>
  "setIf x ident doc =
     (if truthy x then
        (case doc ident of
           None \<Rightarrow> Inl TypeError
         | Some c \<Rightarrow> Inr (doc(ident \<mapsto> assignValue c (str x))))
      else Inr doc)"

definition andThen :: "error + document \<Rightarrow> (document \<Rightarrow> error + document) \<Rightarrow> error + document"
  where
  \<comment> \<open>Statement sequencing: an exception skips the rest.\<close>
  "andThen r f = (case r of Inl e \<Rightarrow> Inl e | Inr doc \<Rightarrow> f doc)"

definition applyUrlFilters :: "params \<Rightarrow> document \<Rightarrow> error + document" where
  \<comment> \<open>The page after the form values are set; the call of \<open>filterProperties\<close> that follows
      is deferred by a timer and reads this page.\<close>
  "applyUrlFilters urlParams doc =
     andThen (andThen (andThen (andThen (andThen
       (setIf (get urlParams ''type'') ''propertyType'' doc)
       (setIf (get urlParams ''budget'') ''budget''))
       (setIf (get urlParams ''bhk'') ''bhk''))
       (setIf (get urlParams ''location'') ''location''))
       (setIf (get urlParams ''status'') ''possession''))
       (setIf (get urlParams ''amenities'') ''amenities'')"

section \<open>Notions of the specification\<close>

definition allFacets :: "selection \<Rightarrow> card \<Rightarrow> bool" where
  \<comment> \<open>The conjunction of the six facet predicates.\<close>
  "allFacets sel c =
     (matchesPropertyType sel c \<and> matchesBudget sel c \<and> matchesBedrooms sel c
      \<and> matchesLocation sel c \<and> matchesPossession sel c \<and> matchesAmenity sel c)"

definition recognizes :: "control \<Rightarrow> string \<Rightarrow> bool" where
  \<comment> \<open>The value belongs to the vocabulary of the control: any text for an input, one of
      the option values for a \<open>select\<close>.\<close>
  "recognizes c v = (case ctl_kind c of TextInput \<Rightarrow> True | SelectOne opts \<Rightarrow> v \<in> set opts)"

definition controlIds :: "string list" where
  "controlIds = [''propertyType'', ''budget'', ''bhk'', ''location'', ''possession'', ''amenities'']"

fun showNat :: "nat \<Rightarrow> string" where
  \<comment> \<open>The decimal numeral of a natural number.\<close>
  "showNat n =
     (if n < 10 then [char_of (48 + n)] else showNat (n div 10) @ [char_of (48 + n mod 10)])"

declare showNat.simps [simp del]

definition showInt :: "int \<Rightarrow> string" where
  "showInt i = (if i < 0 then CHR ''-'' # showNat (nat (- i)) else showNat (nat i))"

fun joinComma :: "string list \<Rightarrow> string" where
  "joinComma [] = []"
| "joinComma [x] = x"
| "joinComma (x # y # ys) = x @ CHR '','' # joinComma (y # ys)"

definition bhkAttribute :: "int list \<Rightarrow> string" where
  \<comment> \<open>Modelled from the spec: the markup that carries a listing's \<open>bedroomOptions\<close> (the
      \<open>data-bhk\<close> attribute of a card) is not among the scripts. The set of integers is
      written the way \<open>checkBhkMatch\<close> reads it: decimal numerals separated by commas.\<close>
  "bhkAttribute ns = joinComma (map showInt ns)"

definition facetPairs :: "document \<Rightarrow> (string \<times> string) list" where
  \<comment> \<open>The six parameter names, in the order of the redirect, each with the value of its
      control (\<open>""\<close> for a control that is empty or absent).\<close>
  "facetPairs doc =
     [(''type'', str (getValue doc ''propertyType'')), (''budget'', str (getValue doc ''budget'')),
      (''bhk'', str (getValue doc ''bhk'')), (''location'', str (getValue doc ''location'')),
      (''status'', str (getValue doc ''possession'')),
      (''amenities'', str (getValue doc ''amenities''))]"

definition upd :: "string option \<Rightarrow> string \<Rightarrow> document \<Rightarrow> document" where
  \<comment> \<open>What \<open>setIf\<close> does to a page that has the element.\<close>
  "upd x ident doc =
     (if truthy x then doc(ident := map_option (\<lambda>c. assignValue c (str x)) (doc ident)) else doc)"

definition isDigit :: "char \<Rightarrow> bool" where
  "isDigit c = (48 \<le> (of_char c :: nat) \<and> (of_char c :: nat) \<le> 57)"

subsection \<open>Scenarios\<close>

definition blankForm :: document where
  \<comment> \<open>A page whose six filter controls are text inputs, all empty.\<close>
  "blankForm =
     [''propertyType'' \<mapsto> \<lparr>ctl_kind = TextInput, ctl_value = []\<rparr>,
      ''budget'' \<mapsto> \<lparr>ctl_kind = TextInput, ctl_value = []\<rparr>,
      ''bhk'' \<mapsto> \<lparr>ctl_kind = TextInput, ctl_value = []\<rparr>,
      ''location'' \<mapsto> \<lparr>ctl_kind = TextInput, ctl_value = []\<rparr>,
      ''possession'' \<mapsto> \<lparr>ctl_kind = TextInput, ctl_value = []\<rparr>,
      ''amenities'' \<mapsto> \<lparr>ctl_kind = TextInput, ctl_value = []\<rparr>]"

definition userSets :: "document \<Rightarrow> string \<Rightarrow> string \<Rightarrow> document" where
  \<comment> \<open>The visitor types or picks a value in one control.\<close>
  "userSets doc ident v =
     (case doc ident of None \<Rightarrow> doc | Some c \<Rightarrow> doc(ident \<mapsto> c\<lparr>ctl_value := v\<rparr>))"

definition listingA :: card where
  \<comment> \<open>The listing of Scenario A; its amenity set is empty.\<close>
  "listingA =
     \<lparr>card_id = 1, data_propertyType = Some ''Luxury Residence'',
      data_priceRange = Some ''10cr'', data_bhk = Some ''4'',
      text_muted = Some ''Upper East Side, New York'', data_status = Some ''ready'',
      data_amenities = Some [], display = ''block''\<rparr>"

definition bareListing :: card where
  \<comment> \<open>A card without any of the data the filter reads.\<close>
  "bareListing =
     \<lparr>card_id = 2, data_propertyType = None, data_priceRange = None, data_bhk = None,
      text_muted = None, data_status = None, data_amenities = None, display = ''block''\<rparr>"

definition everyFacetSet :: document where
  \<comment> \<open>A form with a value in each of the six controls.\<close>
  "everyFacetSet =
     userSets (userSets (userSets (userSets (userSets (userSets blankForm
       ''propertyType'' ''villa'') ''budget'' ''1000+'') ''bhk'' ''5+'') ''location'' ''Miami'')
       ''possession'' ''ready'') ''amenities'' ''pool''"

definition selectForm :: document where
  \<comment> \<open>A page whose controls are \<open>select\<close>s with a first empty option, but for the free-text
      location; nothing is chosen yet.\<close>
  "selectForm =
     [''propertyType'' \<mapsto>
        \<lparr>ctl_kind = SelectOne [[], ''apartment'', ''villa'', ''penthouse''], ctl_value = []\<rparr>,
      ''budget'' \<mapsto>
        \<lparr>ctl_kind = SelectOne [[], ''50-100'', ''100-250'', ''250-500'', ''500-1000'', ''1000+''],
         ctl_value = []\<rparr>,
      ''bhk'' \<mapsto> \<lparr>ctl_kind = SelectOne [[], ''1'', ''2'', ''3'', ''4'', ''5+''], ctl_value = []\<rparr>,
      ''location'' \<mapsto> \<lparr>ctl_kind = TextInput, ctl_value = []\<rparr>,
      ''possession'' \<mapsto>
        \<lparr>ctl_kind = SelectOne [[], ''ready'', ''under-construction''], ctl_value = []\<rparr>,
      ''amenities'' \<mapsto>
        \<lparr>ctl_kind = SelectOne [[], ''pool'', ''gym'', ''club'', ''security'', ''solar''],
         ctl_value = []\<rparr>]"

definition scenarioD :: document where
  \<comment> \<open>The selection of Scenario D: type \<open>villa\<close>, amenity \<open>pool\<close>.\<close>
  "scenarioD = userSets (userSets blankForm ''propertyType'' ''villa'') ''amenities'' ''pool''"

section \<open>The facets are combined by conjunction\<close>

lemma typeStep_conj: "typeStep sel c s = (s \<and> matchesPropertyType sel c)"
  by (auto simp: typeStep_def matchesPropertyType_def)

lemma budgetStep_conj: "budgetStep sel c s = (s \<and> matchesBudget sel c)"
  by (auto simp: budgetStep_def matchesBudget_def)

lemma bhkStep_conj: "bhkStep sel c s = (s \<and> matchesBedrooms sel c)"
  by (auto simp: bhkStep_def matchesBedrooms_def)

lemma locationStep_conj: "locationStep sel c s = (s \<and> matchesLocation sel c)"
  by (auto simp: locationStep_def matchesLocation_def Let_def)

lemma possessionStep_conj: "possessionStep sel c s = (s \<and> matchesPossession sel c)"
  by (auto simp: possessionStep_def matchesPossession_def)

lemma amenitiesStep_conj: "amenitiesStep sel c s = (s \<and> matchesAmenity sel c)"
  by (auto simp: amenitiesStep_def matchesAmenity_def)

lemmas step_conj = typeStep_conj budgetStep_conj bhkStep_conj locationStep_conj
  possessionStep_conj amenitiesStep_conj

lemma fold_conjunctive:
  "(\<And>f s. f \<in> set steps \<Longrightarrow> f s = (s \<and> f True))
   \<Longrightarrow> fold (\<lambda>step flag. step flag) steps b = (b \<and> (\<forall>f \<in> set steps. f True))"
proof (induction steps arbitrary: b)
  case Nil
  show ?case by simp
next
  case (Cons g gs)
  have g: "g b = (b \<and> g True)" using Cons.prems by simp
  have "fold (\<lambda>step flag. step flag) gs (g b) = (g b \<and> (\<forall>f \<in> set gs. f True))"
    using Cons.IH Cons.prems by simp
  with g show ?case by auto
qed

lemma facetSteps_conjunctive:
  "f \<in> set (facetSteps sel c) \<Longrightarrow> f s = (s \<and> f True)"
  by (auto simp: facetSteps_def step_conj)

lemma facetSteps_all:
  "(\<forall>f \<in> set (facetSteps sel c). f True) = allFacets sel c"
  by (simp add: facetSteps_def allFacets_def step_conj)

lemma runSteps_permuted:
  assumes "mset steps = mset (facetSteps sel c)"
  shows "runSteps steps = allFacets sel c"
proof -
  have eq: "set steps = set (facetSteps sel c)" using assms by (rule mset_eq_setD)
  have "f s = (s \<and> f True)" if "f \<in> set steps" for f s
    using that eq facetSteps_conjunctive [of f sel c s] by simp
  then have "runSteps steps = (\<forall>f \<in> set steps. f True)"
    unfolding runSteps_def using fold_conjunctive [of steps True] by simp
  with eq show ?thesis by (simp add: facetSteps_all)
qed

lemma showProperty_allFacets: "showProperty sel c = allFacets sel c"
  unfolding showProperty_def by (rule runSteps_permuted) simp

lemma forEachCard_fst:
  "fst (forEachCard sel cards n) =
     map (\<lambda>c. c\<lparr>display := (if showProperty sel c then ''block'' else ''none'')\<rparr>) cards"
  by (induction cards arbitrary: n) (simp_all add: Let_def)

lemma forEachCard_snd:
  "snd (forEachCard sel cards n) = n + length (filter (showProperty sel) cards)"
  by (induction cards arbitrary: n) (simp_all add: Let_def)

lemma visible_forEachCard:
  "visible (fst (forEachCard sel cards n)) =
     map (\<lambda>c. c\<lparr>display := ''block''\<rparr>) (filter (showProperty sel) cards)"
  by (induction cards arbitrary: n) (simp_all add: Let_def visible_def)

text \<open>
  Claim C1. Run in any order, the six blocks of \<open>filterProperties\<close> leave \<open>showProperty\<close>
  true exactly when all six facet predicates hold of the card and the selection read from
  the form; the cards left on display are the cards of the page for which they all hold,
  in the order of the page.
\<close>

theorem visible_iff_all_six_facets:
  assumes "mset steps = mset (facetSteps (filterSelection doc) c)"
  shows "runSteps steps =
           (matchesPropertyType (filterSelection doc) c \<and> matchesBudget (filterSelection doc) c
            \<and> matchesBedrooms (filterSelection doc) c \<and> matchesLocation (filterSelection doc) c
            \<and> matchesPossession (filterSelection doc) c \<and> matchesAmenity (filterSelection doc) c)
         \<and> visible (fst (filterProperties doc cards)) =
             map (\<lambda>c. c\<lparr>display := ''block''\<rparr>)
               (filter (\<lambda>c. matchesPropertyType (filterSelection doc) c
                    \<and> matchesBudget (filterSelection doc) c
                    \<and> matchesBedrooms (filterSelection doc) c
                    \<and> matchesLocation (filterSelection doc) c
                    \<and> matchesPossession (filterSelection doc) c
                    \<and> matchesAmenity (filterSelection doc) c) cards)"
proof -
  have "runSteps steps = allFacets (filterSelection doc) c"
    using assms by (rule runSteps_permuted)
  moreover have "visible (fst (filterProperties doc cards)) =
      map (\<lambda>c. c\<lparr>display := ''block''\<rparr>) (filter (allFacets (filterSelection doc)) cards)"
    by (simp add: filterProperties_def visible_forEachCard showProperty_allFacets [abs_def])
  ultimately show ?thesis by (simp add: allFacets_def [abs_def])
qed

theorem visible_iff_all_six_facets_witness:
  "mset (rev (facetSteps (filterSelection (userSets blankForm ''bhk'' ''5+'')) listingA)) =
     mset (facetSteps (filterSelection (userSets blankForm ''bhk'' ''5+'')) listingA)
   \<and> \<not> matchesBedrooms (filterSelection (userSets blankForm ''bhk'' ''5+'')) listingA
   \<and> \<not> runSteps (rev (facetSteps (filterSelection (userSets blankForm ''bhk'' ''5+'')) listingA))
   \<and> visible (fst (filterProperties (userSets blankForm ''bhk'' ''5+'') [listingA])) = []"
proof -
  let ?doc = "userSets blankForm ''bhk'' ''5+''"
  have h: "mset (rev (facetSteps (filterSelection ?doc) listingA)) =
      mset (facetSteps (filterSelection ?doc) listingA)"
    by simp
  have e: "\<not> matchesBedrooms (filterSelection ?doc) listingA"
    by code_simp
  show ?thesis
    using h e visible_iff_all_six_facets [OF h, of "[listingA]"] by simp
qed

section \<open>The empty selection\<close>

lemma truthy_toLowerCase: "truthy (map_option toLowerCase v) = truthy v"
  by (cases v) (simp_all add: truthy_def toLowerCase_def)

lemma hasFiltersApplied_filterSelection:
  "hasFiltersApplied doc =
     (truthy (propertyType (filterSelection doc)) \<or> truthy (budget (filterSelection doc))
      \<or> truthy (bhk (filterSelection doc)) \<or> truthy (location (filterSelection doc))
      \<or> truthy (possession (filterSelection doc)) \<or> truthy (amenities (filterSelection doc)))"
  by (simp add: hasFiltersApplied_def filterSelection_def Let_def truthy_toLowerCase)

lemma allFacets_no_filters:
  "\<not> hasFiltersApplied doc \<Longrightarrow> allFacets (filterSelection doc) c"
  by (simp add: hasFiltersApplied_filterSelection allFacets_def matchesPropertyType_def
      matchesBudget_def matchesBedrooms_def matchesLocation_def matchesPossession_def
      matchesAmenity_def)

text \<open>
  Claim C7. When no filter control holds a value (each is empty or absent), every card is
  left on display, in the order of the page, and all of them are counted.
\<close>

theorem empty_selection_shows_all:
  assumes "\<not> hasFiltersApplied doc"
  shows "visible (fst (filterProperties doc cards)) = map (\<lambda>c. c\<lparr>display := ''block''\<rparr>) cards
         \<and> map card_id (visible (fst (filterProperties doc cards))) = map card_id cards
         \<and> snd (filterProperties doc cards) = length cards"
proof -
  have all: "filter (showProperty (filterSelection doc)) cards = cards"
    using assms by (simp add: showProperty_allFacets allFacets_no_filters)
  have "visible (fst (filterProperties doc cards)) = map (\<lambda>c. c\<lparr>display := ''block''\<rparr>) cards"
    by (simp add: filterProperties_def visible_forEachCard all)
  moreover have "snd (filterProperties doc cards) = length cards"
    by (simp add: filterProperties_def forEachCard_snd all)
  ultimately show ?thesis by (simp add: comp_def)
qed

theorem empty_selection_shows_all_witness:
  "\<not> hasFiltersApplied blankForm
   \<and> visible (fst (filterProperties blankForm [listingA, listingA\<lparr>card_id := 2\<rparr>])) =
       [listingA, listingA\<lparr>card_id := 2\<rparr>]
   \<and> snd (filterProperties blankForm [listingA, listingA\<lparr>card_id := 2\<rparr>]) = 2"
proof -
  have h: "\<not> hasFiltersApplied blankForm"
    by code_simp
  show ?thesis
    using h empty_selection_shows_all [OF h, of "[listingA, listingA\<lparr>card_id := 2\<rparr>]"]
    by (simp add: listingA_def)
qed

section \<open>The budget buckets\<close>

text \<open>
  Claim C2, as amended. A selected bucket that is not one of the five codes of the
  \<open>switch\<close> falls to its \<open>default\<close> and matches every price range, whether the selected
  value is empty or not.
\<close>

theorem unknown_bucket_matches_all:
  assumes "selected \<notin> {''50-100'', ''100-250'', ''250-500'', ''500-1000'', ''1000+''}"
  shows "checkBudgetMatch selected priceRange"
  using assms by (simp add: checkBudgetMatch_def)

theorem unknown_bucket_matches_all_witness:
  "''luxury'' \<notin> {''50-100'', ''100-250'', ''250-500'', ''500-1000'', ''1000+''}
   \<and> checkBudgetMatch ''luxury'' ''50l''"
proof -
  have h: "''luxury'' \<notin> {''50-100'', ''100-250'', ''250-500'', ''500-1000'', ''1000+''}"
    by simp
  show ?thesis using h unknown_bucket_matches_all [OF h, of "''50l''"] by simp
qed

text \<open>
  The claim as stated fails: \<open>luxury\<close> is not empty and is none of the five codes, and the
  budget predicate holds of a listing priced \<open>50l\<close>, which stays on display.
\<close>

theorem unknown_bucket_counterexample:
  "''luxury'' \<noteq> []
   \<and> ''luxury'' \<notin> {''50-100'', ''100-250'', ''250-500'', ''500-1000'', ''1000+''}
   \<and> checkBudgetMatch ''luxury'' ''50l''
   \<and> map card_id (visible (fst (filterProperties (userSets blankForm ''budget'' ''luxury'')
        [listingA\<lparr>data_priceRange := Some ''50l''\<rparr>]))) = [1]"
  by code_simp

text \<open>
  Claim C6. The bucket \<open>1000+\<close> matches the price ranges \<open>10cr\<close> and \<open>on-request\<close> and no
  other; in Scenario A the one listing, priced \<open>10cr\<close>, stays on display.
\<close>

theorem bucket_1000_plus:
  "checkBudgetMatch ''1000+'' priceRange = (priceRange = ''10cr'' \<or> priceRange = ''on-request'')
   \<and> map card_id (visible (fst (filterProperties (userSets blankForm ''budget'' ''1000+'')
        [listingA]))) = [1]"
proof -
  have "map card_id (visible (fst (filterProperties (userSets blankForm ''budget'' ''1000+'')
        [listingA]))) = [1]"
    by code_simp
  then show ?thesis by (simp add: checkBudgetMatch_def)
qed

theorem bucket_1000_plus_witness:
  "checkBudgetMatch ''1000+'' ''10cr'' \<and> checkBudgetMatch ''1000+'' ''on-request''
   \<and> \<not> checkBudgetMatch ''1000+'' ''5cr''"
  using bucket_1000_plus [of "''10cr''"] bucket_1000_plus [of "''on-request''"]
    bucket_1000_plus [of "''5cr''"]
  by simp

section \<open>The selection survives the redirect\<close>

lemma setIf_present: "ident \<in> dom doc \<Longrightarrow> setIf x ident doc = Inr (upd x ident doc)"
  by (auto simp: setIf_def upd_def)

lemma upd_other: "j \<noteq> ident \<Longrightarrow> upd x ident doc j = doc j"
  by (simp add: upd_def)

lemma upd_present: "(j \<in> dom (upd x ident doc)) = (j \<in> dom doc)"
  by (auto simp: upd_def dom_def)

lemma dom_upd: "dom (upd x ident doc) = dom doc"
  by (auto simp: upd_def dom_def)

lemma andThen_Inr: "andThen (Inr doc) f = f doc"
  by (simp add: andThen_def)

lemma applyUrlFilters_present:
  assumes "set controlIds \<subseteq> dom doc"
  shows "applyUrlFilters ps doc =
     Inr (upd (get ps ''amenities'') ''amenities''
           (upd (get ps ''status'') ''possession''
             (upd (get ps ''location'') ''location''
               (upd (get ps ''bhk'') ''bhk''
                 (upd (get ps ''budget'') ''budget''
                   (upd (get ps ''type'') ''propertyType'' doc))))))"
  using assms by (simp add: controlIds_def applyUrlFilters_def setIf_present andThen_Inr upd_present)

lemma truthy_str: "truthy x = (str x \<noteq> [])"
  by (cases x) (simp_all add: truthy_def str_def)


lemma appendIf_filter:
  "appendIf x name ps = ps @ filter (\<lambda>(n, v). v \<noteq> []) [(name, str x)]"
  by (simp add: appendIf_def append_def truthy_str)

lemma redirect_pairs:
  "redirectToFilteredProperties doc = filter (\<lambda>(name, v). v \<noteq> []) (facetPairs doc)"
  unfolding redirectToFilteredProperties_def Let_def readControls_def facetPairs_def
    appendIf_filter selection.simps
  by (simp only: append_Nil append_Cons filter_append [symmetric])

lemma map_of_filter_values:
  "distinct (map fst xs) \<Longrightarrow>
   map_of (filter (\<lambda>(n, v). P v) xs) k =
     (case map_of xs k of None \<Rightarrow> None | Some v \<Rightarrow> if P v then Some v else None)"
proof (induction xs)
  case Nil
  show ?case by simp
next
  case (Cons x xs)
  obtain n v where x: "x = (n, v)" by (cases x)
  from Cons.prems x have notin: "n \<notin> fst ` set xs" and d: "distinct (map fst xs)" by auto
  show ?case
  proof (cases "n = k")
    case True
    with notin have "map_of xs k = None" by (simp add: map_of_eq_None_iff)
    with True x Cons.IH [OF d] show ?thesis by simp
  next
    case False
    with x Cons.IH [OF d] show ?thesis by simp
  qed
qed

lemma get_redirect:
  "get (redirectToFilteredProperties doc) name =
     (case map_of (facetPairs doc) name of
        None \<Rightarrow> None | Some v \<Rightarrow> if v \<noteq> [] then Some v else None)"
proof -
  have "distinct (map fst (facetPairs doc))" by (simp add: facetPairs_def)
  then show ?thesis
    unfolding get_def redirect_pairs by (rule map_of_filter_values)
qed

lemma get_redirect_facet:
  "get (redirectToFilteredProperties doc) ''type'' =
     (if truthy (getValue doc ''propertyType'') then Some (str (getValue doc ''propertyType'')) else None)"
  "get (redirectToFilteredProperties doc) ''budget'' =
     (if truthy (getValue doc ''budget'') then Some (str (getValue doc ''budget'')) else None)"
  "get (redirectToFilteredProperties doc) ''bhk'' =
     (if truthy (getValue doc ''bhk'') then Some (str (getValue doc ''bhk'')) else None)"
  "get (redirectToFilteredProperties doc) ''location'' =
     (if truthy (getValue doc ''location'') then Some (str (getValue doc ''location'')) else None)"
  "get (redirectToFilteredProperties doc) ''status'' =
     (if truthy (getValue doc ''possession'') then Some (str (getValue doc ''possession'')) else None)"
  "get (redirectToFilteredProperties doc) ''amenities'' =
     (if truthy (getValue doc ''amenities'') then Some (str (getValue doc ''amenities'')) else None)"
  by (simp_all add: get_redirect facetPairs_def truthy_str del: if_split)

lemma getValue_upd_other: "i \<noteq> j \<Longrightarrow> getValue (upd x j d) i = getValue d i"
  by (simp add: getValue_def upd_other)

lemma assignValue_recognized: "recognizes c v \<Longrightarrow> ctl_value (assignValue c v) = v"
  by (cases "ctl_kind c") (simp_all add: recognizes_def assignValue_def)

lemma str_getValue_upd_same:
  assumes "d i = Some c" and "ctl_value c = []"
    and "truthy (getValue src i) \<longrightarrow> recognizes c (str (getValue src i))"
  shows "str (getValue
           (upd (if truthy (getValue src i) then Some (str (getValue src i)) else None) i d) i)
         = str (getValue src i)"
  using assms
  by (cases "src i") (auto simp: getValue_def upd_def truthy_def str_def assignValue_recognized)

lemma getValue_eq_of_str:
  "i \<in> dom a \<Longrightarrow> i \<in> dom b \<Longrightarrow> str (getValue a i) = str (getValue b i)
   \<Longrightarrow> getValue a i = getValue b i"
  by (auto simp: getValue_def str_def dom_def)

lemma decode_encode:
  assumes dst: "\<forall>ident \<in> set controlIds. \<exists>c. dst ident = Some c \<and> ctl_value c = []
                \<and> (truthy (getValue src ident) \<longrightarrow> recognizes c (str (getValue src ident)))"
  shows "\<exists>doc'. applyUrlFilters (redirectToFilteredProperties src) dst = Inr doc'
           \<and> facetPairs doc' = facetPairs src
           \<and> (set controlIds \<subseteq> dom src \<longrightarrow> readControls doc' = readControls src)"
proof -
  let ?R = "redirectToFilteredProperties src"
  let ?D = "upd (get ?R ''amenities'') ''amenities''
        (upd (get ?R ''status'') ''possession''
          (upd (get ?R ''location'') ''location''
            (upd (get ?R ''bhk'') ''bhk''
              (upd (get ?R ''budget'') ''budget''
                (upd (get ?R ''type'') ''propertyType'' dst)))))"
  have dom: "set controlIds \<subseteq> dom dst"
  proof
    fix i assume "i \<in> set controlIds"
    with dst obtain c where "dst i = Some c" by blast
    then show "i \<in> dom dst" by (simp add: domI)
  qed
  have field: "str (getValue
        (upd (if truthy (getValue src i) then Some (str (getValue src i)) else None) i d) i)
      = str (getValue src i)" if "i \<in> set controlIds" and "d i = dst i" for i d
  proof -
    from dst that(1) obtain c where c: "dst i = Some c" "ctl_value c = []"
      "truthy (getValue src i) \<longrightarrow> recognizes c (str (getValue src i))"
      by blast
    show ?thesis
      using str_getValue_upd_same [of d i c src] c that(2) by simp
  qed
  have f1: "str (getValue (upd (get ?R ''type'') ''propertyType'' d) ''propertyType'')
      = str (getValue src ''propertyType'')" if "d ''propertyType'' = dst ''propertyType''" for d
    unfolding get_redirect_facet by (rule field) (simp_all add: controlIds_def that)
  have f2: "str (getValue (upd (get ?R ''budget'') ''budget'' d) ''budget'')
      = str (getValue src ''budget'')" if "d ''budget'' = dst ''budget''" for d
    unfolding get_redirect_facet by (rule field) (simp_all add: controlIds_def that)
  have f3: "str (getValue (upd (get ?R ''bhk'') ''bhk'' d) ''bhk'')
      = str (getValue src ''bhk'')" if "d ''bhk'' = dst ''bhk''" for d
    unfolding get_redirect_facet by (rule field) (simp_all add: controlIds_def that)
  have f4: "str (getValue (upd (get ?R ''location'') ''location'' d) ''location'')
      = str (getValue src ''location'')" if "d ''location'' = dst ''location''" for d
    unfolding get_redirect_facet by (rule field) (simp_all add: controlIds_def that)
  have f5: "str (getValue (upd (get ?R ''status'') ''possession'' d) ''possession'')
      = str (getValue src ''possession'')" if "d ''possession'' = dst ''possession''" for d
    unfolding get_redirect_facet by (rule field) (simp_all add: controlIds_def that)
  have f6: "str (getValue (upd (get ?R ''amenities'') ''amenities'' d) ''amenities'')
      = str (getValue src ''amenities'')" if "d ''amenities'' = dst ''amenities''" for d
    unfolding get_redirect_facet by (rule field) (simp_all add: controlIds_def that)
  have each: "str (getValue ?D i) = str (getValue src i)" if "i \<in> set controlIds" for i
    using that
    by (auto simp: controlIds_def getValue_upd_other upd_other f1 f2 f3 f4 f5 f6)
  have pairs: "facetPairs ?D = facetPairs src"
    unfolding facetPairs_def by (simp add: each controlIds_def)
  have domD: "set controlIds \<subseteq> dom ?D"
    using dom by (simp add: dom_upd)
  have "readControls ?D = readControls src" if src: "set controlIds \<subseteq> dom src"
  proof -
    have "getValue ?D i = getValue src i" if "i \<in> set controlIds" for i
      using that domD src each [OF that] by (intro getValue_eq_of_str) blast+
    then show ?thesis
      unfolding readControls_def by (simp add: controlIds_def)
  qed
  with pairs show ?thesis
    using applyUrlFilters_present [OF dom] by simp
qed

text \<open>
  Claim C3. Let the target page hold the six controls empty, each recognizing the value
  of its counterpart on the source page unless that value is empty. The redirect emits
  one pair per non-empty control, under the names \<open>type\<close>, \<open>budget\<close>, \<open>bhk\<close>, \<open>location\<close>,
  \<open>status\<close>, \<open>amenities\<close> in this order; \<open>applyUrlFilters\<close> on the target page does not
  throw, and the six facet values of the target page are then those of the source page,
  an absent control counting as an empty one. When the source page holds all six
  controls, the six values read are the same.
\<close>

theorem redirect_roundtrip:
  assumes "\<forall>ident \<in> set controlIds. \<exists>c. dst ident = Some c \<and> ctl_value c = []
           \<and> (truthy (getValue src ident) \<longrightarrow> recognizes c (str (getValue src ident)))"
  shows "redirectToFilteredProperties src = filter (\<lambda>(name, v). v \<noteq> []) (facetPairs src)
         \<and> (\<exists>doc'. applyUrlFilters (redirectToFilteredProperties src) dst = Inr doc'
               \<and> facetPairs doc' = facetPairs src
               \<and> (set controlIds \<subseteq> dom src \<longrightarrow> readControls doc' = readControls src))"
  using decode_encode [OF assms] redirect_pairs [of src] by simp

theorem redirect_roundtrip_witness:
  "set controlIds \<subseteq> dom scenarioD
   \<and> redirectToFilteredProperties scenarioD = [(''type'', ''villa''), (''amenities'', ''pool'')]
   \<and> (\<exists>doc'. applyUrlFilters [(''type'', ''villa''), (''amenities'', ''pool'')] selectForm = Inr doc'
         \<and> readControls doc' = readControls scenarioD)"
proof -
  have h1: "set controlIds \<subseteq> dom scenarioD"
    by (simp add: controlIds_def scenarioD_def userSets_def blankForm_def)
  have h2: "\<forall>ident \<in> set controlIds. \<exists>c. selectForm ident = Some c \<and> ctl_value c = []
      \<and> (truthy (getValue scenarioD ident) \<longrightarrow> recognizes c (str (getValue scenarioD ident)))"
    by (simp add: controlIds_def scenarioD_def userSets_def blankForm_def selectForm_def
        getValue_def truthy_def str_def recognizes_def)
  have e: "filter (\<lambda>(name, v). v \<noteq> []) (facetPairs scenarioD)
      = [(''type'', ''villa''), (''amenities'', ''pool'')]"
    by code_simp
  from redirect_roundtrip [OF h2]
  have r: "redirectToFilteredProperties scenarioD
      = filter (\<lambda>(name, v). v \<noteq> []) (facetPairs scenarioD)"
    and ex: "\<exists>doc'. applyUrlFilters (redirectToFilteredProperties scenarioD) selectForm = Inr doc'
      \<and> facetPairs doc' = facetPairs scenarioD
      \<and> (set controlIds \<subseteq> dom scenarioD \<longrightarrow> readControls doc' = readControls scenarioD)"
    by blast+
  from r e have "redirectToFilteredProperties scenarioD
      = [(''type'', ''villa''), (''amenities'', ''pool'')]"
    by simp
  with ex h1 show ?thesis by auto
qed

section \<open>The bedrooms predicate\<close>

lemma isDigit_char_of: "(d::nat) < 10 \<Longrightarrow> isDigit (char_of (48 + d))"
  by (simp add: isDigit_def)

lemma digitVal_char_of: "(d::nat) < 10 \<Longrightarrow> digitVal (char_of (48 + d)) = d"
  by (simp add: digitVal_def)

lemma digitVal_isDigit: "isDigit c \<Longrightarrow> digitVal c < 10"
  by (auto simp: digitVal_def isDigit_def Let_def)

lemma showNat_digits: "\<forall>c \<in> set (showNat n). isDigit c"
proof (induction n rule: showNat.induct)
  case (1 n)
  show ?case
  proof (cases "n < 10")
    case True
    then show ?thesis by (subst showNat.simps) (simp add: isDigit_char_of)
  next
    case False
    with 1 show ?thesis by (subst showNat.simps) (simp add: isDigit_char_of)
  qed
qed

lemma showNat_nonempty: "showNat n \<noteq> []"
  by (subst showNat.simps) simp

lemma showNat_value: "foldl (\<lambda>a c. a * 10 + digitVal c) 0 (showNat n) = n"
proof (induction n rule: showNat.induct)
  case (1 n)
  show ?case
  proof (cases "n < 10")
    case True
    then show ?thesis by (subst showNat.simps) (simp add: digitVal_char_of)
  next
    case False
    with 1 show ?thesis by (subst showNat.simps) (simp add: digitVal_char_of)
  qed
qed

lemma whiteSpace_first:
  "\<forall>w \<in> set whiteSpace. w \<noteq> [] \<and>
     (of_char (hd w) :: nat) \<in> {9, 10, 11, 12, 13, 32, 194, 225, 226, 227, 239}"
  by (simp add: whiteSpace_def)

lemma wsLen_no_space:
  assumes "isDigit c \<or> c = CHR ''-''"
  shows "wsLen (c # cs) = 0"
proof -
  have c: "(of_char c :: nat) \<notin> {9, 10, 11, 12, 13, 32, 194, 225, 226, 227, 239}"
    using assms by (auto simp: isDigit_def)
  have "\<not> prefix w (c # cs)" if w: "w \<in> set whiteSpace" for w
  proof
    assume p: "prefix w (c # cs)"
    from w whiteSpace_first have ne: "w \<noteq> []"
      and h: "(of_char (hd w) :: nat) \<in> {9, 10, 11, 12, 13, 32, 194, 225, 226, 227, 239}"
      by blast+
    from ne p have "hd w = c" by (cases w) simp_all
    with h c show False by simp
  qed
  then have "List.find (\<lambda>w. prefix w (c # cs)) whiteSpace = None"
    by (simp add: find_None_iff)
  then show ?thesis by (simp add: wsLen_def)
qed

lemma trimStart_no_space: "isDigit c \<or> c = CHR ''-'' \<Longrightarrow> trimStart (c # cs) = c # cs"
  by (subst trimStart.simps) (simp add: wsLen_no_space)

lemma digits_no_hex: "\<forall>c \<in> set s. isDigit c \<Longrightarrow> \<not> hasHexPrefix s"
  by (auto simp: hasHexPrefix_def prefix_def isDigit_def)

lemma parseInt_digits:
  assumes "s \<noteq> []" and "\<forall>c \<in> set s. isDigit c"
  shows "parseInt s = Some (int (foldl (\<lambda>a c. a * 10 + digitVal c) 0 s))"
proof -
  obtain c cs where s: "s = c # cs" using assms(1) by (cases s) auto
  have c: "isDigit c" using assms(2) s by simp
  have t: "trimStart s = s" using c s by (simp add: trimStart_no_space)
  have sign: "hd s \<noteq> CHR ''-''" "hd s \<noteq> CHR ''+''" using c s by (auto simp: isDigit_def)
  have tw: "takeWhile (\<lambda>c. digitVal c < 10) s = s"
    using assms(2) by (simp add: digitVal_isDigit)
  show ?thesis
    using assms(1) by (simp add: parseInt_def t sign digits_no_hex [OF assms(2)] tw Let_def)
qed

lemma parseInt_minus_digits:
  assumes "s \<noteq> []" and "\<forall>c \<in> set s. isDigit c"
  shows "parseInt (CHR ''-'' # s) = Some (- int (foldl (\<lambda>a c. a * 10 + digitVal c) 0 s))"
proof -
  have t: "trimStart (CHR ''-'' # s) = CHR ''-'' # s" by (simp add: trimStart_no_space)
  have tw: "takeWhile (\<lambda>c. digitVal c < 10) s = s"
    using assms(2) by (simp add: digitVal_isDigit)
  show ?thesis
    using assms(1) by (simp add: parseInt_def t digits_no_hex [OF assms(2)] tw Let_def)
qed

lemma parseInt_showInt: "parseInt (showInt i) = Some i"
  by (simp add: showInt_def parseInt_digits parseInt_minus_digits showNat_nonempty
      showNat_digits showNat_value)

lemma showInt_no_comma: "CHR '','' \<notin> set (showInt i)"
  using showNat_digits [of "nat i"] showNat_digits [of "nat (- i)"]
  by (auto simp: showInt_def isDigit_def)

lemma showInt_nonempty: "showInt i \<noteq> []"
  by (simp add: showInt_def showNat_nonempty)

lemma split_comma_nonempty: "split_comma s \<noteq> []"
  by (cases s) simp_all

lemma split_comma_no_comma: "CHR '','' \<notin> set x \<Longrightarrow> split_comma x = [x]"
  by (induction x) auto

lemma split_comma_append:
  "CHR '','' \<notin> set x \<Longrightarrow> split_comma (x @ CHR '','' # rest) = x # split_comma rest"
  by (induction x) auto

lemma split_comma_joinComma:
  "xs \<noteq> [] \<Longrightarrow> \<forall>x \<in> set xs. CHR '','' \<notin> set x \<Longrightarrow> split_comma (joinComma xs) = xs"
  by (induction xs rule: joinComma.induct) (simp_all add: split_comma_no_comma split_comma_append)

lemma joinComma_nonempty: "xs \<noteq> [] \<Longrightarrow> \<forall>x \<in> set xs. x \<noteq> [] \<Longrightarrow> joinComma xs \<noteq> []"
  by (induction xs rule: joinComma.induct) simp_all

lemma split_bhkAttribute: "ns \<noteq> [] \<Longrightarrow> split_comma (bhkAttribute ns) = map showInt ns"
  by (simp add: bhkAttribute_def split_comma_joinComma showInt_no_comma)

lemma bhkAttribute_nonempty: "ns \<noteq> [] \<Longrightarrow> bhkAttribute ns \<noteq> []"
  by (simp add: bhkAttribute_def joinComma_nonempty showInt_nonempty)

lemma checkBhkMatch_options:
  "checkBhkMatch selected cardBhk =
     (cardBhk = [] \<or>
      (if selected = ''5+''
       then \<exists>opt \<in> set (split_comma cardBhk). \<exists>num. parseInt opt = Some num \<and> 5 \<le> num
       else selected \<in> set (split_comma cardBhk)))"
  by (auto simp: checkBhkMatch_def Let_def list_ex_iff split: option.splits)

lemma split_comma_concat:
  "split_comma (s @ CHR '','' # t) = split_comma s @ split_comma t"
proof (induction s)
  case Nil
  show ?case by simp
next
  case (Cons c cs)
  have ne: "split_comma cs \<noteq> []" by (rule split_comma_nonempty)
  show ?case
  proof (cases "c = CHR '',''")
    case True
    with Cons show ?thesis by simp
  next
    case False
    with Cons ne show ?thesis by (cases "split_comma cs") simp_all
  qed
qed

text \<open>
  Claim C5. For a listing that offers the bedroom counts \<open>ns\<close>, at least one as the data
  model requires, the predicate holds of the sentinel \<open>5+\<close> exactly when some count is at
  least 5, and of any other selected value exactly when that value is the numeral of one
  of the counts.
\<close>

theorem bedrooms_literal_or_sentinel:
  assumes "ns \<noteq> []"
  shows "checkBhkMatch selected (bhkAttribute ns) =
           (if selected = ''5+'' then \<exists>n \<in> set ns. 5 \<le> n else selected \<in> showInt ` set ns)"
  using assms
  by (auto simp: checkBhkMatch_options split_bhkAttribute bhkAttribute_nonempty parseInt_showInt)

theorem bedrooms_literal_or_sentinel_witness:
  "[5, 6] \<noteq> ([] :: int list) \<and> bhkAttribute [5, 6] = ''5,6'' \<and> bhkAttribute [4] = ''4''
   \<and> checkBhkMatch ''5+'' (bhkAttribute [5, 6]) \<and> \<not> checkBhkMatch ''5+'' (bhkAttribute [4])
   \<and> checkBhkMatch ''6'' (bhkAttribute [5, 6]) \<and> \<not> checkBhkMatch ''4'' (bhkAttribute [5, 6])"
proof -
  have a: "bhkAttribute [5, 6] = ''5,6''" "bhkAttribute [4] = ''4''"
    by code_simp+
  have s: "showInt 5 = ''5''" "showInt 6 = ''6''"
    by code_simp+
  show ?thesis
    using bedrooms_literal_or_sentinel [of "[5, 6]" "''5+''"]
      bedrooms_literal_or_sentinel [of "[4]" "''5+''"]
      bedrooms_literal_or_sentinel [of "[5, 6]" "''6''"]
      bedrooms_literal_or_sentinel [of "[5, 6]" "''4''"]
    by (simp add: a s)
qed

text \<open>
  Claim C10. \<open>checkBhkMatch\<close> has a boolean result for every selected value and every
  attribute string: nothing in it can throw, so the model has no error result. Under the
  sentinel \<open>5+\<close> only the options that \<open>parseInt\<close> reads as a number count, an option it
  reads as \<open>NaN\<close> is skipped: the result is that of the list of the parsed numbers, a string
  none of whose options parses does not match, and adding an option that does not parse
  changes nothing. Any other selected value is looked up among the options.
\<close>

theorem bedrooms_total_nan_ignored:
  "checkBhkMatch ''5+'' cardBhk =
     (cardBhk = [] \<or> (\<exists>num \<in> set (List.map_filter parseInt (split_comma cardBhk)). 5 \<le> num))
   \<and> (cardBhk \<noteq> [] \<and> list_all (\<lambda>opt. parseInt opt = None) (split_comma cardBhk)
        \<longrightarrow> \<not> checkBhkMatch ''5+'' cardBhk)
   \<and> (cardBhk \<noteq> [] \<and> CHR '','' \<notin> set opt \<and> parseInt opt = None
        \<longrightarrow> checkBhkMatch ''5+'' (cardBhk @ CHR '','' # opt) = checkBhkMatch ''5+'' cardBhk)
   \<and> (selected \<noteq> ''5+''
        \<longrightarrow> checkBhkMatch selected cardBhk = (cardBhk = [] \<or> selected \<in> set (split_comma cardBhk)))"
proof -
  have 1: "checkBhkMatch ''5+'' cardBhk =
     (cardBhk = [] \<or> (\<exists>num \<in> set (List.map_filter parseInt (split_comma cardBhk)). 5 \<le> num))"
    by (auto simp: checkBhkMatch_options map_filter_def)
  have 2: "\<not> checkBhkMatch ''5+'' cardBhk"
    if "cardBhk \<noteq> []" "list_all (\<lambda>opt. parseInt opt = None) (split_comma cardBhk)"
    using that by (auto simp: checkBhkMatch_options list_all_iff)
  have 3: "checkBhkMatch ''5+'' (cardBhk @ CHR '','' # opt) = checkBhkMatch ''5+'' cardBhk"
    if "cardBhk \<noteq> []" "CHR '','' \<notin> set opt" "parseInt opt = None"
    using that
    by (auto simp: checkBhkMatch_options split_comma_concat split_comma_no_comma)
  have 4: "checkBhkMatch selected cardBhk = (cardBhk = [] \<or> selected \<in> set (split_comma cardBhk))"
    if "selected \<noteq> ''5+''"
    using that by (simp add: checkBhkMatch_options)
  from 1 2 3 4 show ?thesis by blast
qed

theorem bedrooms_total_nan_ignored_witness:
  "parseInt ''abc'' = None \<and> \<not> checkBhkMatch ''5+'' ''abc''
   \<and> \<not> checkBhkMatch ''5+'' ''4,abc'' \<and> checkBhkMatch ''5+'' ''6,abc''
   \<and> \<not> checkBhkMatch ''abc'' ''4''"
proof -
  have p: "parseInt ''abc'' = None"
    by code_simp
  have e: "\<not> checkBhkMatch ''5+'' ''4''" "checkBhkMatch ''5+'' ''6''"
    "list_all (\<lambda>opt. parseInt opt = None) (split_comma ''abc'')"
    "split_comma ''4'' = [''4'']"
    by code_simp+
  show ?thesis
    using bedrooms_total_nan_ignored [of "''abc''" "''abc''" "''abc''"]
      bedrooms_total_nan_ignored [of "''4''" "''abc''" "''abc''"]
      bedrooms_total_nan_ignored [of "''6''" "''abc''" "''abc''"]
    by (simp add: p e)
qed

section \<open>The property-type predicate\<close>

lemma str_includes_sublist: "str_includes s sub = sublist sub s"
  by (induction s) (simp_all add: sublist_Cons_right)

text \<open>
  Claim C9, as amended. With a selected type and a listing that carries a type string, the
  block for the property type keeps the listing exactly when the selected value occurs in
  that string as a contiguous part; it keeps every listing when nothing is selected, and
  every listing that carries no type string.
\<close>

theorem property_type_is_substring:
  "typeStep sel c True =
     (\<not> truthy (propertyType sel) \<or> \<not> truthy (data_propertyType c)
      \<or> (\<exists>pre post. str (data_propertyType c) = pre @ str (propertyType sel) @ post))"
  by (auto simp: typeStep_def str_includes_sublist sublist_def)

theorem property_type_is_substring_witness:
  "str (data_propertyType listingA) = [] @ ''Luxury'' @ '' Residence''
   \<and> typeStep (filterSelection (userSets blankForm ''propertyType'' ''Luxury'')) listingA True
   \<and> \<not> typeStep (filterSelection (userSets blankForm ''propertyType'' ''villa'')) listingA True"
proof -
  have e: "str (data_propertyType listingA) = [] @ ''Luxury'' @ '' Residence''"
    "str (propertyType (filterSelection (userSets blankForm ''propertyType'' ''Luxury''))) = ''Luxury''"
    "\<not> typeStep (filterSelection (userSets blankForm ''propertyType'' ''villa'')) listingA True"
    by code_simp+
  have "\<exists>pre post. str (data_propertyType listingA)
      = pre @ str (propertyType (filterSelection (userSets blankForm ''propertyType'' ''Luxury''))) @ post"
    unfolding e(2) using e(1) by blast
  then show ?thesis
    using e property_type_is_substring
      [of "filterSelection (userSets blankForm ''propertyType'' ''Luxury'')" listingA]
    by blast
qed

text \<open>
  The claim as stated fails: the listing of Scenario A has the one type tag
  \<open>Luxury Residence\<close>; the selected value \<open>Luxury\<close> is not that tag, and the listing
  stays on display.
\<close>

theorem property_type_counterexample:
  "data_propertyType listingA = Some ''Luxury Residence''
   \<and> ''Luxury'' \<notin> {''Luxury Residence''}
   \<and> matchesPropertyType (filterSelection (userSets blankForm ''propertyType'' ''Luxury'')) listingA
   \<and> map card_id (visible (fst (filterProperties (userSets blankForm ''propertyType'' ''Luxury'')
        [listingA]))) = [1]"
  by code_simp

section \<open>Listings with a missing value\<close>

text \<open>
  Claim C4, as amended. When the listing's value for a facet is missing or empty, the block
  of that facet leaves \<open>showProperty\<close> as it was, whatever is selected: the facet does not
  hide the listing. In particular \<open>checkAmenitiesMatch\<close> and \<open>checkBhkMatch\<close> are true of
  an empty attribute. No block can throw.
\<close>

theorem missing_value_passes:
  "(\<not> truthy (data_propertyType c) \<longrightarrow> typeStep sel c flag = flag)
   \<and> (\<not> truthy (data_priceRange c) \<longrightarrow> budgetStep sel c flag = flag)
   \<and> (\<not> truthy (data_bhk c) \<longrightarrow> bhkStep sel c flag = flag)
   \<and> (\<not> truthy (text_muted c) \<longrightarrow> locationStep sel c flag = flag)
   \<and> (\<not> truthy (data_status c) \<longrightarrow> possessionStep sel c flag = flag)
   \<and> (\<not> truthy (data_amenities c) \<longrightarrow> amenitiesStep sel c flag = flag)
   \<and> checkAmenitiesMatch selected [] \<and> checkBhkMatch selected []"
  by (simp add: typeStep_def budgetStep_def bhkStep_def locationStep_def possessionStep_def
      amenitiesStep_def truthy_toLowerCase checkAmenitiesMatch_def checkBhkMatch_def)

theorem missing_value_passes_witness:
  "\<not> truthy (data_amenities listingA)
   \<and> truthy (amenities (filterSelection (userSets blankForm ''amenities'' ''pool'')))
   \<and> amenitiesStep (filterSelection (userSets blankForm ''amenities'' ''pool'')) listingA True
   \<and> checkAmenitiesMatch ''pool'' []
   \<and> hasFiltersApplied everyFacetSet
   \<and> typeStep (filterSelection everyFacetSet) bareListing True
   \<and> budgetStep (filterSelection everyFacetSet) bareListing True
   \<and> bhkStep (filterSelection everyFacetSet) bareListing True
   \<and> locationStep (filterSelection everyFacetSet) bareListing True
   \<and> possessionStep (filterSelection everyFacetSet) bareListing True
   \<and> amenitiesStep (filterSelection everyFacetSet) bareListing True"
proof -
  have e: "\<not> truthy (data_amenities listingA)"
    "truthy (amenities (filterSelection (userSets blankForm ''amenities'' ''pool'')))"
    "hasFiltersApplied everyFacetSet"
    by code_simp+
  have b: "\<not> truthy (data_propertyType bareListing)" "\<not> truthy (data_priceRange bareListing)"
    "\<not> truthy (data_bhk bareListing)" "\<not> truthy (text_muted bareListing)"
    "\<not> truthy (data_status bareListing)" "\<not> truthy (data_amenities bareListing)"
    by (simp_all add: bareListing_def truthy_def)
  show ?thesis
    using e b missing_value_passes
      [of listingA "filterSelection (userSets blankForm ''amenities'' ''pool'')" True "''pool''"]
      missing_value_passes [of bareListing "filterSelection everyFacetSet" True "''pool''"]
    by simp
qed

text \<open>
  The claim as stated fails: the amenity set of the listing of Scenario A is empty, the
  selected amenity \<open>pool\<close> is not, and the amenity predicate is true: the listing stays on
  display.
\<close>

theorem missing_value_counterexample:
  "data_amenities listingA = Some []
   \<and> checkAmenitiesMatch ''pool'' []
   \<and> matchesAmenity (filterSelection (userSets blankForm ''amenities'' ''pool'')) listingA
   \<and> map card_id (visible (fst (filterProperties (userSets blankForm ''amenities'' ''pool'')
        [listingA]))) = [1]"
  by code_simp

section \<open>The summary of the active filters: labels\<close>

lemma getProperty_own:
  "map_of table key = Some v \<Longrightarrow> v \<noteq> [] \<Longrightarrow> toString (orElse (getProperty table key) (Str key)) = v"
  by (simp add: getProperty_def orElse_def truthyVal_def toString_def)

lemma getProperty_none:
  "map_of table key = None \<Longrightarrow> key \<notin> set objectPrototypeKeys
   \<Longrightarrow> toString (orElse (getProperty table key) (Str key)) = key"
  by (simp add: getProperty_def orElse_def truthyVal_def toString_def)

lemma label_of_plain_value:
  assumes "v \<notin> set objectPrototypeKeys"
  shows "toString (getBudgetLabel v) = (case map_of budgetLabels v of Some l \<Rightarrow> l | None \<Rightarrow> v)"
    and "toString (getAmenityLabel v) = (case map_of amenityLabels v of Some l \<Rightarrow> l | None \<Rightarrow> v)"
proof -
  have b: "l \<noteq> []" if "map_of budgetLabels v = Some l" for l
    using that by (auto simp: budgetLabels_def rupee_def split: if_splits)
  have a: "l \<noteq> []" if "map_of amenityLabels v = Some l" for l
    using that by (auto simp: amenityLabels_def split: if_splits)
  show "toString (getBudgetLabel v) = (case map_of budgetLabels v of Some l \<Rightarrow> l | None \<Rightarrow> v)"
    unfolding getBudgetLabel_def using assms b
    by (cases "map_of budgetLabels v") (simp_all add: getProperty_own getProperty_none)
  show "toString (getAmenityLabel v) = (case map_of amenityLabels v of Some l \<Rightarrow> l | None \<Rightarrow> v)"
    unfolding getAmenityLabel_def using assms a
    by (cases "map_of amenityLabels v") (simp_all add: getProperty_own getProperty_none)
qed

lemma summary_of_plain_values:
  assumes "str (getValue doc ''budget'') \<notin> set objectPrototypeKeys"
    and "str (getValue doc ''amenities'') \<notin> set objectPrototypeKeys"
  shows "getActiveFilters doc =
     (if truthy (getValue doc ''propertyType'')
      then [''Type: '' @ str (getValue doc ''propertyType'')] else [])
     @ (if truthy (getValue doc ''budget'')
        then [''Budget: '' @ (case map_of budgetLabels (str (getValue doc ''budget'')) of
                Some l \<Rightarrow> l | None \<Rightarrow> str (getValue doc ''budget''))] else [])
     @ (if truthy (getValue doc ''bhk'') then [''BHK: '' @ str (getValue doc ''bhk'')] else [])
     @ (if truthy (getValue doc ''location'')
        then [''Location: '' @ str (getValue doc ''location'')] else [])
     @ (if truthy (getValue doc ''possession'')
        then [''Status: '' @ str (getValue doc ''possession'')] else [])
     @ (if truthy (getValue doc ''amenities'')
        then [''Amenities: '' @ (case map_of amenityLabels (str (getValue doc ''amenities'')) of
                Some l \<Rightarrow> l | None \<Rightarrow> str (getValue doc ''amenities''))] else [])"
  using assms
  by (simp add: getActiveFilters_def readControls_def Let_def label_of_plain_value del: if_split)

lemma scenario_D_summary:
  "getActiveFilters scenarioD = [''Type: villa'', ''Amenities: Swimming Pool'']"
  by code_simp

text \<open>
  Claim C8. The summary has one entry per non-empty control, in the order type, budget,
  bedrooms, location, status, amenities, and Scenario D reads as the claim says
  (\<open>scenario_D_summary\<close>); a budget or amenity value outside its table is shown as it is
  (\<open>summary_of_plain_values\<close>), unless it names a member that every object inherits. The
  tables are object literals, so for the amenity value \<open>constructor\<close> the lookup finds the
  inherited \<open>Object\<close> function, and the summary shows the text of that function in place
  of the value. The value reaches a text input from the URL \<open>?amenities=constructor\<close>.
\<close>

theorem inherited_key_label:
  "getActiveFilters (userSets blankForm ''amenities'' ''constructor'')
     = [''Amenities: function Object() { [native code] }'']
   \<and> getActiveFilters (userSets blankForm ''amenities'' ''constructor'')
     \<noteq> [''Amenities: constructor'']
   \<and> map_of amenityLabels ''constructor'' = None
   \<and> (case applyUrlFilters [(''amenities'', ''constructor'')] blankForm of
         Inl e \<Rightarrow> [] | Inr doc' \<Rightarrow> getActiveFilters doc')
     = [''Amenities: function Object() { [native code] }'']"
  by code_simp

end
